theory Spec2Isabelle
  imports Main "HOL-Library.AList" "HOL-Library.Sublist"
begin

section \<open>The import migration of \<^verbatim>\<open>schematics/migrations/v2.ts\<close>\<close>

text \<open>
  The visitor of \<^verbatim>\<open>migrateImports\<close> reads the syntax tree that the TypeScript parser
  built for one file, fills \<^verbatim>\<open>importsMap\<close> and an \<^verbatim>\<open>UpdateRecorder\<close>, and commits the
  recorder when the map has a key. The parser and the recorder are libraries: the tree is
  the input of the model, and the recorder is the list of the calls made on it.
  Texts are ASCII, one character for each code unit, and do not start with a byte order
  mark. An identifier is the name as it is written in the file.
\<close>

subsection \<open>Syntax tree\<close>

text \<open>\<^verbatim>\<open>ts.ImportSpecifier\<close>: \<^verbatim>\<open>propertyName?\<close> (the exported name of \<^verbatim>\<open>{a as b}\<close>) and
  \<^verbatim>\<open>name\<close> (the local binding).\<close>

datatype import_specifier =
  ImportSpecifier (propertyName: "string option") (specifierName: string)

text \<open>\<^verbatim>\<open>ts.NamedImportBindings\<close>: \<^verbatim>\<open>{a, b as c}\<close> or \<^verbatim>\<open>* as ns\<close>. The only child of a
  namespace import is its identifier.\<close>

datatype named_import_bindings =
  NamedImports (elements: "import_specifier list")
| NamespaceImport (namespaceName: string)

text \<open>\<^verbatim>\<open>ts.ImportClause\<close>: \<^verbatim>\<open>name?\<close> is the default binding.\<close>

datatype import_clause =
  ImportClause (clauseName: "string option") (namedBindings: "named_import_bindings option")

text \<open>The module specifier is an expression; \<^verbatim>\<open>getText\<close> of a string literal is its source
  text, quotes included.\<close>

datatype expression =
  StringLiteral (getText: string)
| OtherExpression (getText: string)

text \<open>A top-level statement with \<^verbatim>\<open>getStart()\<close> and \<^verbatim>\<open>getWidth()\<close>. The import clause
  of \<^verbatim>\<open>import 'm';\<close> is \<^verbatim>\<open>undefined\<close>.\<close>

datatype statement =
  ImportDeclaration (importClause: "import_clause option") (moduleSpecifier: expression)
    (getStart: nat) (getWidth: nat)
| OtherStatement (getStart: nat) (getWidth: nat)

record source_file =
  content :: string
  fileStart :: nat
  statements :: "statement list"

subsection \<open>State of the visitor\<close>

datatype imported = Imported (name: string) (aliasOf: "string option")

type_synonym imports_map = "(string \<times> imported list) list"

datatype edit = Remove nat nat | InsertLeft nat string

record migration =
  importsMap :: imports_map
  recorder :: "edit list"

text \<open>Reading a property of \<^verbatim>\<open>undefined\<close> throws; the string is the property read.\<close>

datatype error = TypeError string

fun thenDo :: "error + 'a \<Rightarrow> ('a \<Rightarrow> error + 'b) \<Rightarrow> error + 'b" where
  "thenDo (Inl e) f = Inl e"
| "thenDo (Inr x) f = f x"

subsection \<open>\<^verbatim>\<open>getIdentifiers\<close>\<close>

text \<open>The migration reads every identifier through \<^verbatim>\<open>escapedText\<close>. The parser stores there
  what \<^verbatim>\<open>escapeLeadingUnderscores\<close> of the TypeScript library makes of the written name: a
  name that starts with two underscores gets a third one in front.\<close>

definition escapedText :: "string \<Rightarrow> string" where
  "escapedText identifier =
     (if take 2 identifier = ''__'' then CHR ''_'' # identifier else identifier)"

text \<open>One event per import specifier, in order. The alias passed on is \<^verbatim>\<open>name\<close> again.\<close>

definition identifierOf :: "import_specifier \<Rightarrow> imported" where
  "identifierOf named =
     (let name = (case propertyName named of
                    Some p \<Rightarrow> escapedText p
                  | None \<Rightarrow> escapedText (specifierName named))
      in Imported name (if name = escapedText (specifierName named) then None else Some name))"

fun getIdentifiers :: "named_import_bindings \<Rightarrow> imported list" where
  "getIdentifiers (NamedImports els) = map identifierOf els"
| "getIdentifiers (NamespaceImport n) = []"

subsection \<open>\<^verbatim>\<open>collectIdentifiers\<close>\<close>

text \<open>\<^verbatim>\<open>importsMap\<close> is an object with string keys, none of them an integer index, so
  \<^verbatim>\<open>Object.keys\<close> lists them in insertion order: an association list with new keys added
  at the end. The keys are the targets of the table below, none of which is a property
  that an empty object inherits.\<close>

definition ensureBucket :: "string \<Rightarrow> imports_map \<Rightarrow> imports_map" where
  "ensureBucket packageName m =
     (if map_of m packageName = None then m @ [(packageName, [])] else m)"

definition pushImported :: "string \<Rightarrow> imported \<Rightarrow> imports_map \<Rightarrow> imports_map" where
  "pushImported packageName im m = AList.map_entry packageName (\<lambda>xs. xs @ [im]) m"

definition collectIdentifiers :: "string \<Rightarrow> named_import_bindings \<Rightarrow> imports_map \<Rightarrow> imports_map" where
  "collectIdentifiers packageName nb m =
     foldl (\<lambda>acc im. pushImported packageName im (ensureBucket packageName acc)) m
       (getIdentifiers nb)"

subsection \<open>\<^verbatim>\<open>redirectImport\<close>\<close>

definition removeStatement :: "statement \<Rightarrow> edit" where
  "removeStatement st = Remove (getStart st) (getWidth st)"

definition redirectImport ::
  "string \<Rightarrow> string \<Rightarrow> string \<Rightarrow> statement \<Rightarrow> migration \<Rightarrow> error + migration" where
  "redirectImport source target modulePath st s =
     (if modulePath = source then
        (case importClause st of
           None \<Rightarrow> Inl (TypeError ''namedBindings'')
         | Some clause \<Rightarrow>
             (let m = (case namedBindings clause of
                         Some nb \<Rightarrow> collectIdentifiers target nb (importsMap s)
                       | None \<Rightarrow> importsMap s)
              in Inr \<lparr>importsMap = m, recorder = recorder s @ [removeStatement st]\<rparr>))
      else Inr s)"

text \<open>The fifteen calls of the visitor, in their order: source and target.\<close>

definition redirects :: "(string \<times> string) list" where
  "redirects =
    [(''apollo-cache-inmemory'', ''@apollo/client/core''),
     (''apollo-client'', ''@apollo/client/core''),
     (''apollo-link'', ''@apollo/client/core''),
     (''apollo-cache'', ''@apollo/client/core''),
     (''apollo-angular-link-http'', ''apollo-angular/http''),
     (''apollo-angular-link-http-batch'', ''apollo-angular/http''),
     (''apollo-utilities'', ''@apollo/client/utilities''),
     (''apollo-link-http'', ''@apollo/client/link/http''),
     (''apollo-link-batch-http'', ''@apollo/client/link/batch-http''),
     (''apollo-link-context'', ''@apollo/client/link/context''),
     (''apollo-link-error'', ''@apollo/client/link/error''),
     (''apollo-link-schema'', ''@apollo/client/link/schema''),
     (''apollo-link-ws'', ''@apollo/client/link/ws''),
     (''apollo-angular'', ''apollo-angular''),
     (''apollo-angular-link-headers'', ''apollo-angular/headers'')]"

fun redirectAll ::
  "(string \<times> string) list \<Rightarrow> string \<Rightarrow> statement \<Rightarrow> migration \<Rightarrow> error + migration" where
  "redirectAll [] modulePath st s = Inr s"
| "redirectAll ((source, target) # rs) modulePath st s =
     thenDo (redirectImport source target modulePath st s) (redirectAll rs modulePath st)"

subsection \<open>The visitor\<close>

text \<open>\<^verbatim>\<open>text.substr(1, text.length - 2)\<close>; a negative length gives the empty string.\<close>

definition modulePathOf :: "string \<Rightarrow> string" where
  "modulePathOf nodeText = take (length nodeText - 2) (drop 1 nodeText)"

text \<open>The block for \<^verbatim>\<open>graphql-tag\<close>: the bucket is made first, then the name of the default
  binding is read.\<close>

definition graphqlTag :: "string \<Rightarrow> statement \<Rightarrow> migration \<Rightarrow> error + migration" where
  "graphqlTag modulePath st s =
     (if modulePath = ''graphql-tag'' then
        (let m = ensureBucket ''apollo-angular'' (importsMap s) in
         case importClause st of
           None \<Rightarrow> Inl (TypeError ''name'')
         | Some clause \<Rightarrow>
             (case clauseName clause of
                None \<Rightarrow> Inl (TypeError ''escapedText'')
              | Some identifier \<Rightarrow>
                  (let alias = escapedText identifier in
                   Inr \<lparr>importsMap =
                          pushImported ''apollo-angular''
                            (Imported ''gql'' (if alias \<noteq> ''gql'' then Some alias else None)) m,
                        recorder = recorder s @ [removeStatement st]\<rparr>)))
      else Inr s)"

definition visitStatement :: "statement \<Rightarrow> migration \<Rightarrow> error + migration" where
  "visitStatement st s =
     (case st of
        ImportDeclaration clause (StringLiteral nodeText) a w \<Rightarrow>
          (let modulePath = modulePathOf nodeText
           in thenDo (redirectAll redirects modulePath st s) (graphqlTag modulePath st))
      | ImportDeclaration clause (OtherExpression e) a w \<Rightarrow> Inr s
      | OtherStatement a w \<Rightarrow> Inr s)"

fun forEachStatement :: "statement list \<Rightarrow> migration \<Rightarrow> error + migration" where
  "forEachStatement [] s = Inr s"
| "forEachStatement (st # sts) s = thenDo (visitStatement st s) (forEachStatement sts)"

subsection \<open>Emitting the merged imports\<close>

text \<open>\<^verbatim>\<open>im.alias ? `${im.name} as ${im.alias}` : im.name\<close>: an empty alias is falsy.\<close>

definition renderImported :: "imported \<Rightarrow> string" where
  "renderImported im =
     (case aliasOf im of
        None \<Rightarrow> name im
      | Some a \<Rightarrow> if a = [] then name im else name im @ '' as '' @ a)"

fun join :: "string \<Rightarrow> string list \<Rightarrow> string" where
  "join sep [] = []"
| "join sep [x] = x"
| "join sep (x # y # ys) = x @ sep @ join sep (y # ys)"

definition importStatement :: "string \<Rightarrow> imported list \<Rightarrow> string" where
  "importStatement importSource ims =
     ''import {'' @ join '', '' (map renderImported ims) @ ''} from '' @ [CHR 0x27]
       @ importSource @ [CHR 0x27] @ '';'' @ [CHR 0x0A]"

definition insertImports :: "nat \<Rightarrow> imports_map \<Rightarrow> edit list" where
  "insertImports start m = map (\<lambda>(importSource, ims). InsertLeft start (importStatement importSource ims)) m"

definition emptyMigration :: migration where
  "emptyMigration = \<lparr>importsMap = [], recorder = []\<rparr>"

text \<open>The body of the visitor past the path test: the recorder that is committed, or
  \<open>None\<close> when \<^verbatim>\<open>importSources.length\<close> is zero and nothing is committed.\<close>

definition visitSourceFile :: "source_file \<Rightarrow> error + edit list option" where
  "visitSourceFile sf =
     thenDo (forEachStatement (statements sf) emptyMigration)
       (\<lambda>s. Inr (if importsMap s = [] then None
                  else Some (recorder s @ insertImports (fileStart sf) (importsMap s))))"

text \<open>\<^verbatim>\<open>path.includes('node_modules') || !path.endsWith('.ts')\<close> skips the file.\<close>

definition visit :: "string \<Rightarrow> source_file \<Rightarrow> error + edit list option" where
  "visit path sf =
     (if sublist ''node_modules'' path \<or> \<not> suffix ''.ts'' path then Inr None
      else visitSourceFile sf)"

subsection \<open>Committing the recorder\<close>

text \<open>The recorder of \<^verbatim>\<open>@angular-devkit/schematics\<close> is a library. For a text that does
  not start with a byte order mark its edits are positions in the text that was read: a
  removal drops the code units of its span, an insertion puts its text before the code
  unit at its position, later insertions at one position after earlier ones. (For a text
  that starts with a byte order mark the library moves every position; such texts are
  outside this model.)\<close>

definition insertedAt :: "edit list \<Rightarrow> nat \<Rightarrow> string" where
  "insertedAt es i =
     concat (map (\<lambda>e. case e of InsertLeft p c \<Rightarrow> (if p = i then c else []) | Remove a w \<Rightarrow> []) es)"

definition removedAt :: "edit list \<Rightarrow> nat \<Rightarrow> bool" where
  "removedAt es i =
     list_ex (\<lambda>e. case e of Remove a w \<Rightarrow> a \<le> i \<and> i < a + w | InsertLeft p c \<Rightarrow> False) es"

definition commitUpdate :: "string \<Rightarrow> edit list \<Rightarrow> string" where
  "commitUpdate txt es =
     concat (map (\<lambda>i. insertedAt es i @ (if removedAt es i then [] else [txt ! i]))
                 [0..<length txt])
       @ insertedAt es (length txt)"

text \<open>The text of the file after the visitor has run on it.\<close>

definition migrateFile :: "string \<Rightarrow> source_file \<Rightarrow> error + string" where
  "migrateFile path sf =
     thenDo (visit path sf)
       (\<lambda>r. Inr (case r of None \<Rightarrow> content sf | Some es \<Rightarrow> commitUpdate (content sf) es))"

subsection \<open>What the claims speak about\<close>

text \<open>A string literal as written in the source, in single quotes.\<close>

definition quoted :: "string \<Rightarrow> string" where
  "quoted s = CHR 0x27 # s @ [CHR 0x27]"

text \<open>\<^verbatim>\<open>importsMap[k]\<close>, read as the empty list when the key is absent.\<close>

definition bucket :: "imports_map \<Rightarrow> string \<Rightarrow> imported list" where
  "bucket m k = (case map_of m k of Some xs \<Rightarrow> xs | None \<Rightarrow> [])"

text \<open>The \<^verbatim>\<open>modulePath\<close> that the visitor computes for a statement, when it computes one.\<close>

definition importedModule :: "statement \<Rightarrow> string option" where
  "importedModule st =
     (case st of
        ImportDeclaration c (StringLiteral t) a w \<Rightarrow> Some (modulePathOf t)
      | ImportDeclaration c (OtherExpression e) a w \<Rightarrow> None
      | OtherStatement a w \<Rightarrow> None)"

text \<open>A statement matches the mapping when its module path is the source of one of the
  fifteen calls or is \<^verbatim>\<open>graphql-tag\<close>.\<close>

definition matched :: "statement \<Rightarrow> bool" where
  "matched st =
     (case importedModule st of
        Some p \<Rightarrow> p \<in> set (map fst redirects) \<or> p = ''graphql-tag''
      | None \<Rightarrow> False)"

text \<open>What the visit of one statement pushes into the bucket of one destination, read off
  \<^verbatim>\<open>redirectImport\<close> and the block for \<^verbatim>\<open>graphql-tag\<close>: the events of \<^verbatim>\<open>getIdentifiers\<close>
  when a call redirects the module of the statement there, and the entry for \<^verbatim>\<open>gql\<close>.\<close>

definition pushed :: "string \<Rightarrow> statement \<Rightarrow> imported list" where
  "pushed target st =
     (case st of
        ImportDeclaration (Some clause) (StringLiteral t) a w \<Rightarrow>
          (if map_of redirects (modulePathOf t) = Some target then
             (case namedBindings clause of Some nb \<Rightarrow> getIdentifiers nb | None \<Rightarrow> [])
           else if modulePathOf t = ''graphql-tag'' \<and> target = ''apollo-angular'' then
             (case clauseName clause of
                Some L \<Rightarrow>
                  [Imported ''gql'' (if escapedText L \<noteq> ''gql'' then Some (escapedText L) else None)]
              | None \<Rightarrow> [])
           else [])
      | _ \<Rightarrow> [])"

text \<open>The pair that an import specifier names, in the words of the specification: the
  exported name, and the local binding as alias only when it differs from the exported
  name.\<close>

definition namedPair :: "import_specifier \<Rightarrow> imported" where
  "namedPair sp =
     (let exported = (case propertyName sp of Some p \<Rightarrow> p | None \<Rightarrow> specifierName sp)
      in Imported exported (if specifierName sp = exported then None else Some (specifierName sp)))"

text \<open>The pairs that one statement names for one destination module, in the words of the
  specification: the pairs of its import specifiers when a rule maps its module to the
  destination, and \<^verbatim>\<open>gql\<close>, with the local name of a default import from \<^verbatim>\<open>graphql-tag\<close>
  as alias when that name is not \<^verbatim>\<open>gql\<close>, for \<^verbatim>\<open>apollo-angular\<close>.\<close>

definition namedFor :: "string \<Rightarrow> statement \<Rightarrow> imported list" where
  "namedFor target st =
     (case st of
        ImportDeclaration (Some clause) (StringLiteral t) a w \<Rightarrow>
          (if map_of redirects (modulePathOf t) = Some target then
             (case namedBindings clause of
                Some (NamedImports els) \<Rightarrow> map namedPair els
              | Some (NamespaceImport n) \<Rightarrow> []
              | None \<Rightarrow> [])
           else if modulePathOf t = ''graphql-tag'' \<and> target = ''apollo-angular'' then
             (case clauseName clause of
                Some L \<Rightarrow> [Imported ''gql'' (if L \<noteq> ''gql'' then Some L else None)]
              | None \<Rightarrow> [])
           else [])
      | _ \<Rightarrow> [])"




subsection \<open>Files used as examples\<close>

definition newline :: string where
  "newline = [CHR 0x0A]"

text \<open>\<^verbatim>\<open>import {X as A} from 'apollo-client';\<close>\<close>

definition aliasedImport :: statement where
  "aliasedImport =
     ImportDeclaration
       (Some (ImportClause None (Some (NamedImports [ImportSpecifier (Some ''X'') ''A'']))))
       (StringLiteral (quoted ''apollo-client'')) 0 37"

definition aliasedFile :: source_file where
  "aliasedFile =
     \<lparr>content = ''import {X as A} from 'apollo-client';'' @ newline,
      fileStart = 0, statements = [aliasedImport]\<rparr>"

text \<open>\<^verbatim>\<open>import {Apollo} from 'apollo-angular';\<close>, and the same statement in the text that
  the first run leaves.\<close>

definition apolloImport :: statement where
  "apolloImport =
     ImportDeclaration
       (Some (ImportClause None (Some (NamedImports [ImportSpecifier None ''Apollo'']))))
       (StringLiteral (quoted ''apollo-angular'')) 0 38"

definition apolloFile :: source_file where
  "apolloFile =
     \<lparr>content = ''import {Apollo} from 'apollo-angular';'' @ newline,
      fileStart = 0, statements = [apolloImport]\<rparr>"

definition apolloFileAgain :: source_file where
  "apolloFileAgain =
     \<lparr>content = ''import {Apollo} from 'apollo-angular';'' @ newline @ newline,
      fileStart = 0, statements = [apolloImport]\<rparr>"


text \<open>\<^verbatim>\<open>import {} from 'apollo-link';\<close>\<close>

definition emptyNamedFile :: source_file where
  "emptyNamedFile =
     \<lparr>content = ''import {} from 'apollo-link';'' @ newline,
      fileStart = 0,
      statements =
        [ImportDeclaration (Some (ImportClause None (Some (NamedImports []))))
           (StringLiteral (quoted ''apollo-link'')) 0 29]\<rparr>"

text \<open>\<^verbatim>\<open>import ApolloClient from 'apollo-client';\<close>\<close>

definition defaultOnlyImport :: statement where
  "defaultOnlyImport =
     ImportDeclaration (Some (ImportClause (Some ''ApolloClient'') None))
       (StringLiteral (quoted ''apollo-client'')) 0 41"

definition defaultOnlyFile :: source_file where
  "defaultOnlyFile =
     \<lparr>content = ''import ApolloClient from 'apollo-client';'' @ newline,
      fileStart = 0, statements = [defaultOnlyImport]\<rparr>"

text \<open>\<^verbatim>\<open>import 'apollo-client';\<close>\<close>

definition sideEffectFile :: source_file where
  "sideEffectFile =
     \<lparr>content = ''import 'apollo-client';'' @ newline,
      fileStart = 0,
      statements = [ImportDeclaration None (StringLiteral (quoted ''apollo-client'')) 0 23]\<rparr>"

text \<open>\<^verbatim>\<open>import myGql from 'graphql-tag';\<close> and \<^verbatim>\<open>import {Injectable} from '@angular/core';\<close>
  on two lines.\<close>

definition injectableImport :: statement where
  "injectableImport =
     ImportDeclaration
       (Some (ImportClause None (Some (NamedImports [ImportSpecifier None ''Injectable'']))))
       (StringLiteral (quoted ''@angular/core'')) 33 41"

definition myGqlFile :: source_file where
  "myGqlFile =
     \<lparr>content = ''import myGql from 'graphql-tag';'' @ newline
                 @ ''import {Injectable} from '@angular/core';'' @ newline,
      fileStart = 0,
      statements =
        [ImportDeclaration (Some (ImportClause (Some ''myGql'') None))
           (StringLiteral (quoted ''graphql-tag'')) 0 32,
         injectableImport]\<rparr>"

text \<open>\<^verbatim>\<open>import __g from 'graphql-tag';\<close>\<close>

definition underscoreGqlFile :: source_file where
  "underscoreGqlFile =
     \<lparr>content = ''import __g from 'graphql-tag';'' @ newline,
      fileStart = 0,
      statements =
        [ImportDeclaration (Some (ImportClause (Some ''__g'') None))
           (StringLiteral (quoted ''graphql-tag'')) 0 30]\<rparr>"

text \<open>\<^verbatim>\<open>import {gql} from 'graphql-tag';\<close>\<close>

definition namedGqlFile :: source_file where
  "namedGqlFile =
     \<lparr>content = ''import {gql} from 'graphql-tag';'' @ newline,
      fileStart = 0,
      statements =
        [ImportDeclaration
           (Some (ImportClause None (Some (NamedImports [ImportSpecifier None ''gql'']))))
           (StringLiteral (quoted ''graphql-tag'')) 0 32]\<rparr>"

text \<open>\<^verbatim>\<open>import { InMemoryCache } from 'apollo-cache-inmemory';\<close> and
  \<^verbatim>\<open>import { ApolloLink } from 'apollo-link';\<close> on two lines, and the file that the
  first run leaves: \<^verbatim>\<open>import {InMemoryCache, ApolloLink} from '@apollo/client/core';\<close>\<close>

definition cacheLinkFile :: source_file where
  "cacheLinkFile =
     \<lparr>content = ''import { InMemoryCache } from 'apollo-cache-inmemory';'' @ newline
                 @ ''import { ApolloLink } from 'apollo-link';'' @ newline,
      fileStart = 0,
      statements =
        [ImportDeclaration
           (Some (ImportClause None (Some (NamedImports [ImportSpecifier None ''InMemoryCache'']))))
           (StringLiteral (quoted ''apollo-cache-inmemory'')) 0 54,
         ImportDeclaration
           (Some (ImportClause None (Some (NamedImports [ImportSpecifier None ''ApolloLink'']))))
           (StringLiteral (quoted ''apollo-link'')) 55 41]\<rparr>"


text \<open>A file with no import that matches: \<^verbatim>\<open>import x from moduleName;\<close>, whose
  specifier is not a string literal, \<^verbatim>\<open>import {Injectable} from '@angular/core';\<close> and
  another statement, on three lines.\<close>

definition computedImport :: statement where
  "computedImport =
     ImportDeclaration (Some (ImportClause (Some ''x'') None)) (OtherExpression ''moduleName'') 0 25"

definition unrelatedFile :: source_file where
  "unrelatedFile =
     \<lparr>content = ''import x from moduleName;'' @ newline
                 @ ''import {Injectable} from '@angular/core';'' @ newline
                 @ ''export const answer = 42;'' @ newline,
      fileStart = 0,
      statements =
        [computedImport,
         ImportDeclaration
           (Some (ImportClause None (Some (NamedImports [ImportSpecifier None ''Injectable'']))))
           (StringLiteral (quoted ''@angular/core'')) 26 41,
         OtherStatement 68 25]\<rparr>"

text \<open>\<^verbatim>\<open>import ApolloClient from 'apollo-client';\<close> and
  \<^verbatim>\<open>import {ApolloLink} from 'apollo-link';\<close> on two lines.\<close>

definition defaultAndNamedFile :: source_file where
  "defaultAndNamedFile =
     \<lparr>content = ''import ApolloClient from 'apollo-client';'' @ newline
                 @ ''import {ApolloLink} from 'apollo-link';'' @ newline,
      fileStart = 0,
      statements =
        [defaultOnlyImport,
         ImportDeclaration
           (Some (ImportClause None (Some (NamedImports [ImportSpecifier None ''ApolloLink'']))))
           (StringLiteral (quoted ''apollo-link'')) 42 39]\<rparr>"

subsection \<open>The file that a run leaves\<close>

text \<open>A second run reads the file that the first run leaves, parsed again. The parser is
  a library; what it reads from the text that the recorder leaves is written out here.
  Every emitted import is an import declaration with the entries of its bucket as named
  imports and its destination as string literal; the first one starts where the
  insertions were made, each next one after the line end of the one before. The
  statements that were not removed follow, each moved by the length of what was inserted
  less the widths of the statements removed before it.\<close>

definition emittedSpecifier :: "imported \<Rightarrow> import_specifier" where
  "emittedSpecifier im =
     (case aliasOf im of
        None \<Rightarrow> ImportSpecifier None (name im)
      | Some a \<Rightarrow> if a = [] then ImportSpecifier None (name im)
                  else ImportSpecifier (Some (name im)) a)"

fun emittedStatements :: "nat \<Rightarrow> imports_map \<Rightarrow> statement list" where
  "emittedStatements pos [] = []"
| "emittedStatements pos ((importSource, ims) # m) =
     ImportDeclaration
       (Some (ImportClause None (Some (NamedImports (map emittedSpecifier ims)))))
       (StringLiteral (quoted importSource)) pos (length (importStatement importSource ims) - 1)
     # emittedStatements (pos + length (importStatement importSource ims)) m"

fun startingAt :: "nat \<Rightarrow> statement \<Rightarrow> statement" where
  "startingAt pos (ImportDeclaration c m a w) = ImportDeclaration c m pos w"
| "startingAt pos (OtherStatement a w) = OtherStatement pos w"

definition keptStatement :: "nat \<Rightarrow> statement list \<Rightarrow> statement \<Rightarrow> statement" where
  "keptStatement inserted removed st =
     startingAt
       (getStart st + inserted
          - sum_list (map getWidth (filter (\<lambda>r. getStart r < getStart st) removed)))
       st"

definition fileLeft :: "source_file \<Rightarrow> migration \<Rightarrow> source_file" where
  "fileLeft sf s =
     \<lparr>content = commitUpdate (content sf)
                   (recorder s @ insertImports (fileStart sf) (importsMap s)),
      fileStart = fileStart sf,
      statements =
        emittedStatements (fileStart sf) (importsMap s) @
        map (keptStatement
               (sum_list (map (\<lambda>(importSource, ims). length (importStatement importSource ims))
                              (importsMap s)))
               (filter matched (statements sf)))
            (filter (\<lambda>st. \<not> matched st) (statements sf))\<rparr>"

text \<open>The file after one run of the visitor on it: the file itself when nothing is
  committed.\<close>

definition fileAfter :: "string \<Rightarrow> source_file \<Rightarrow> error + source_file" where
  "fileAfter path sf =
     (if sublist ''node_modules'' path \<or> \<not> suffix ''.ts'' path then Inr sf
      else thenDo (forEachStatement (statements sf) emptyMigration)
             (\<lambda>s. Inr (if importsMap s = [] then sf else fileLeft sf s)))"

section \<open>Lemmas about the visitor\<close>

lemma modulePathOf_quoted: "modulePathOf (quoted p) = p"
  by (simp add: modulePathOf_def quoted_def)

lemma redirectAll_no_source:
  "p \<notin> fst ` set rs \<Longrightarrow> redirectAll rs p st s = Inr s"
  by (induction rs) (auto simp: redirectImport_def)

lemma redirectAll_source:
  "distinct (map fst rs) \<Longrightarrow> map_of rs p = Some t \<Longrightarrow>
   redirectAll rs p st s = redirectImport p t p st s"
proof (induction rs)
  case Nil
  then show ?case by simp
next
  case (Cons r rs)
  obtain a b where r: "r = (a, b)" by (cases r)
  show ?case
  proof (cases "p = a")
    case True
    with Cons.prems r have t: "t = b" and notin: "p \<notin> fst ` set rs" by auto
    show ?thesis
    proof (cases "redirectImport a b p st s")
      case (Inl e)
      with True r t show ?thesis by simp
    next
      case (Inr s')
      with True r t notin show ?thesis by (simp add: redirectAll_no_source)
    qed
  next
    case False
    with Cons r show ?thesis by (simp add: redirectImport_def)
  qed
qed

lemma distinct_sources: "distinct (map fst redirects)"
  by (simp add: redirects_def)

lemma graphql_tag_no_source: "''graphql-tag'' \<notin> fst ` set redirects"
  by (simp add: redirects_def)

lemma thenDo_Inr [simp]: "thenDo x Inr = x"
  by (cases x) simp_all

lemma visitStatement_rule:
  assumes "importedModule st = Some p" and "map_of redirects p = Some t"
  shows "visitStatement st s = redirectImport p t p st s"
proof -
  from assms(2) have "p \<in> fst ` set redirects" by (metis map_of_eq_None_iff option.distinct(1))
  with graphql_tag_no_source have ne: "p \<noteq> ''graphql-tag''" by metis
  have g: "graphqlTag p st = Inr" using ne by (auto simp: graphqlTag_def fun_eq_iff)
  from assms(1) obtain c t' a w where st: "st = ImportDeclaration c (StringLiteral t') a w" and p: "p = modulePathOf t'"
    by (auto simp: importedModule_def split: statement.splits expression.splits)
  show ?thesis
    using redirectAll_source [OF distinct_sources assms(2), of st s] g
    by (simp add: st p visitStatement_def Let_def)
qed

lemma visitStatement_graphql:
  assumes "importedModule st = Some ''graphql-tag''"
  shows "visitStatement st s = graphqlTag ''graphql-tag'' st s"
proof -
  from assms obtain c t' a w where st: "st = ImportDeclaration c (StringLiteral t') a w" and p: "modulePathOf t' = ''graphql-tag''"
    by (auto simp: importedModule_def split: statement.splits expression.splits)
  show ?thesis
    using redirectAll_no_source [OF graphql_tag_no_source, of st s]
    by (simp add: st p visitStatement_def Let_def)
qed

lemma visitStatement_unmatched:
  assumes "\<not> matched st"
  shows "visitStatement st s = Inr s"
proof (cases "importedModule st")
  case None
  then show ?thesis
    by (auto simp: importedModule_def visitStatement_def split: statement.splits expression.splits)
next
  case (Some p)
  with assms have notin: "p \<notin> fst ` set redirects" and ne: "p \<noteq> ''graphql-tag''"
    by (auto simp: matched_def)
  from Some obtain c t' a w where st: "st = ImportDeclaration c (StringLiteral t') a w" and p: "p = modulePathOf t'"
    by (auto simp: importedModule_def split: statement.splits expression.splits)
  show ?thesis
    using redirectAll_no_source [OF notin, of st s] ne
    by (simp add: st p visitStatement_def graphqlTag_def Let_def)
qed

lemma forEachStatement_append:
  "forEachStatement (xs @ ys) s = thenDo (forEachStatement xs s) (forEachStatement ys)"
proof (induction xs arbitrary: s)
  case Nil
  then show ?case by simp
next
  case (Cons x xs)
  then show ?case by (cases "visitStatement x s") simp_all
qed

lemma forEachStatement_unmatched:
  "\<forall>st \<in> set sts. \<not> matched st \<Longrightarrow> forEachStatement sts s = Inr s"
  by (induction sts) (simp_all add: visitStatement_unmatched)

lemma bucket_ensureBucket: "bucket (ensureBucket k m) k' = bucket m k'"
  by (auto simp: bucket_def ensureBucket_def map_add_def split: option.splits)

lemma map_of_ensureBucket: "map_of (ensureBucket k m) k \<noteq> None"
  by (auto simp: ensureBucket_def map_add_def)

lemma bucket_pushImported:
  "map_of m k \<noteq> None \<Longrightarrow>
   bucket (pushImported k im m) k' = (if k' = k then bucket m k @ [im] else bucket m k')"
  by (auto simp: bucket_def pushImported_def map_of_map_entry split: option.splits)

lemma bucket_pushStep:
  "bucket (pushImported k im (ensureBucket k m)) k' = (if k' = k then bucket m k @ [im] else bucket m k')"
  by (simp add: bucket_pushImported map_of_ensureBucket bucket_ensureBucket)

lemma map_fst_map_entry: "map fst (AList.map_entry k f xs) = map fst xs"
  by (induction xs) auto

lemma keys_pushStep:
  "map fst (pushImported k im (ensureBucket k m)) = (if k \<in> fst ` set m then map fst m else map fst m @ [k])"
  by (auto simp: pushImported_def ensureBucket_def map_fst_map_entry map_of_eq_None_iff)

lemma bucket_foldl:
  "bucket (foldl (\<lambda>acc im. pushImported k im (ensureBucket k acc)) m ims) k' =
     (if k' = k then bucket m k @ ims else bucket m k')"
  by (induction ims arbitrary: m) (simp_all add: bucket_pushStep)

lemma bucket_collectIdentifiers:
  "bucket (collectIdentifiers t nb m) k =
     (if k = t then bucket m t @ getIdentifiers nb else bucket m k)"
  by (simp add: collectIdentifiers_def bucket_foldl)

lemma keys_foldl:
  "map fst (foldl (\<lambda>acc im. pushImported k im (ensureBucket k acc)) m ims) =
     (if ims = [] \<or> k \<in> fst ` set m then map fst m else map fst m @ [k])"
proof (induction ims arbitrary: m)
  case Nil
  then show ?case by simp
next
  case (Cons im ims)
  let ?m = "pushImported k im (ensureBucket k m)"
  have k: "k \<in> fst ` set ?m"
    using keys_pushStep [of k im m] by (metis (no_types, lifting) list.set_map set_append Un_iff list.set_intros(1))
  show ?case
    using Cons.IH [of ?m] k keys_pushStep [of k im m] by (simp del: set_map add: list.set_map [symmetric])
qed

lemma keys_collectIdentifiers:
  "map fst (collectIdentifiers t nb m) =
     (if getIdentifiers nb = [] \<or> t \<in> fst ` set m then map fst m else map fst m @ [t])"
  by (simp add: collectIdentifiers_def keys_foldl)

lemma pushed_unmatched: "\<not> matched st \<Longrightarrow> pushed k st = []"
  by (auto simp: matched_def importedModule_def pushed_def map_of_eq_None_iff [symmetric]
           split: statement.splits expression.splits option.splits)

lemma matched_cases:
  assumes "matched st"
  obtains (rule) p t where "importedModule st = Some p" "map_of redirects p = Some t"
  | (graphql) "importedModule st = Some ''graphql-tag''"
proof -
  from assms obtain p where p: "importedModule st = Some p"
    and d: "p \<in> set (map fst redirects) \<or> p = ''graphql-tag''"
    by (auto simp: matched_def split: option.splits)
  show thesis
  proof (cases "p = ''graphql-tag''")
    case True
    with p graphql show ?thesis by simp
  next
    case False
    with d have "p \<in> fst ` set redirects" by simp
    then obtain t where "map_of redirects p = Some t"
      by (metis map_of_eq_None_iff not_Some_eq)
    with p rule show ?thesis by blast
  qed
qed

lemma matched_rule: "importedModule st = Some p \<Longrightarrow> map_of redirects p = Some t \<Longrightarrow> matched st"
  by (auto simp: matched_def dest: map_of_SomeD intro: image_eqI [where x = "(p, t)"])

lemma matched_graphql: "importedModule st = Some ''graphql-tag'' \<Longrightarrow> matched st"
  by (simp add: matched_def)

lemma importedModule_Some:
  assumes "importedModule st = Some p"
  obtains c tx a w where "st = ImportDeclaration c (StringLiteral tx) a w" "modulePathOf tx = p"
  using assms by (auto simp: importedModule_def split: statement.splits expression.splits)

lemma step_rule:
  assumes im: "importedModule st = Some p" and r: "map_of redirects p = Some t"
    and ok: "visitStatement st s = Inr s'"
  shows "recorder s' = recorder s @ [removeStatement st]"
    and "bucket (importsMap s') k = bucket (importsMap s) k @ pushed k st"
    and "fst ` set (importsMap s') = fst ` set (importsMap s) \<union> {k. pushed k st \<noteq> []}"
proof -
  from im obtain c tx a w where st: "st = ImportDeclaration c (StringLiteral tx) a w"
    and p: "modulePathOf tx = p" by (rule importedModule_Some)
  from ok have red: "redirectImport p t p st s = Inr s'"
    by (simp add: visitStatement_rule [OF im r])
  then obtain clause where c: "c = Some clause"
    by (cases c) (simp_all add: redirectImport_def st)
  obtain dn nbo where clause: "clause = ImportClause dn nbo" by (cases clause)
  have s': "s' = \<lparr>importsMap = (case nbo of Some nb \<Rightarrow> collectIdentifiers t nb (importsMap s)
                                  | None \<Rightarrow> importsMap s),
                   recorder = recorder s @ [removeStatement st]\<rparr>"
    using red by (simp add: redirectImport_def st c clause)
  have "map_of redirects ''graphql-tag'' = None"
    using graphql_tag_no_source by (simp add: map_of_eq_None_iff)
  with r have ne: "p \<noteq> ''graphql-tag''" by auto
  have con: "pushed k st = (if k = t then (case nbo of Some nb \<Rightarrow> getIdentifiers nb | None \<Rightarrow> []) else [])" for k
    using r ne by (auto simp: pushed_def st c clause p)
  show "recorder s' = recorder s @ [removeStatement st]" by (simp add: s')
  show "bucket (importsMap s') k = bucket (importsMap s) k @ pushed k st"
    by (cases nbo) (simp_all add: s' con bucket_collectIdentifiers)
  show "fst ` set (importsMap s') = fst ` set (importsMap s) \<union> {k. pushed k st \<noteq> []}"
  proof (cases nbo)
    case None
    then show ?thesis by (simp add: s' con)
  next
    case (Some nb)
    have "set (map fst (collectIdentifiers t nb (importsMap s))) =
          fst ` set (importsMap s) \<union> (if getIdentifiers nb = [] then {} else {t})"
      by (simp only: keys_collectIdentifiers) auto
    then show ?thesis by (auto simp: s' con Some)
  qed
qed

lemma step_graphql:
  assumes im: "importedModule st = Some ''graphql-tag''"
    and ok: "visitStatement st s = Inr s'"
  shows "recorder s' = recorder s @ [removeStatement st]"
    and "bucket (importsMap s') k = bucket (importsMap s) k @ pushed k st"
    and "fst ` set (importsMap s') = fst ` set (importsMap s) \<union> {k. pushed k st \<noteq> []}"
proof -
  from im obtain c tx a w where st: "st = ImportDeclaration c (StringLiteral tx) a w"
    and p: "modulePathOf tx = ''graphql-tag''" by (rule importedModule_Some)
  from ok have g: "graphqlTag ''graphql-tag'' st s = Inr s'"
    by (simp add: visitStatement_graphql [OF im])
  then obtain clause where c: "c = Some clause"
    by (cases c) (simp_all add: graphqlTag_def st)
  obtain dn nbo where clause: "clause = ImportClause dn nbo" by (cases clause)
  from g obtain L where dn: "dn = Some L"
    by (cases dn) (simp_all add: graphqlTag_def st c clause)
  let ?im = "Imported ''gql'' (if escapedText L \<noteq> ''gql'' then Some (escapedText L) else None)"
  have s': "s' = \<lparr>importsMap = pushImported ''apollo-angular'' ?im
                                  (ensureBucket ''apollo-angular'' (importsMap s)),
                   recorder = recorder s @ [removeStatement st]\<rparr>"
    using g by (simp add: graphqlTag_def st c clause dn Let_def)
  have none: "map_of redirects ''graphql-tag'' = None"
    using graphql_tag_no_source by (simp add: map_of_eq_None_iff)
  have con: "pushed k st = (if k = ''apollo-angular'' then [?im] else [])" for k
    by (simp add: pushed_def st c clause dn p none)
  show "recorder s' = recorder s @ [removeStatement st]" by (simp add: s')
  show "bucket (importsMap s') k = bucket (importsMap s) k @ pushed k st"
    by (simp add: s' con bucket_pushStep)
  have "set (map fst (pushImported ''apollo-angular'' ?im (ensureBucket ''apollo-angular'' (importsMap s))))
        = fst ` set (importsMap s) \<union> {''apollo-angular''}"
    by (simp only: keys_pushStep) auto
  then show "fst ` set (importsMap s') = fst ` set (importsMap s) \<union> {k. pushed k st \<noteq> []}"
    by (auto simp: s' con)
qed

lemma step:
  assumes ok: "visitStatement st s = Inr s'"
  shows "recorder s' = recorder s @ (if matched st then [removeStatement st] else [])"
    and "bucket (importsMap s') k = bucket (importsMap s) k @ pushed k st"
    and "fst ` set (importsMap s') = fst ` set (importsMap s) \<union> {k. pushed k st \<noteq> []}"
proof -
  have "recorder s' = recorder s @ (if matched st then [removeStatement st] else []) \<and>
        bucket (importsMap s') k = bucket (importsMap s) k @ pushed k st \<and>
        fst ` set (importsMap s') = fst ` set (importsMap s) \<union> {k. pushed k st \<noteq> []}"
  proof (cases "matched st")
    case False
    with ok have "s' = s" by (simp add: visitStatement_unmatched)
    with False show ?thesis by (simp add: pushed_unmatched)
  next
    case True
    then show ?thesis
    proof (cases rule: matched_cases)
      case (rule p t)
      with True step_rule [OF rule ok] show ?thesis by simp
    next
      case graphql
      with True step_graphql [OF graphql ok] show ?thesis by simp
    qed
  qed
  then show "recorder s' = recorder s @ (if matched st then [removeStatement st] else [])"
    and "bucket (importsMap s') k = bucket (importsMap s) k @ pushed k st"
    and "fst ` set (importsMap s') = fst ` set (importsMap s) \<union> {k. pushed k st \<noteq> []}"
    by simp_all
qed

lemma forEach_result:
  assumes "forEachStatement sts s = Inr s'"
  shows "recorder s' = recorder s @ map removeStatement (filter matched sts)"
    and "bucket (importsMap s') k = bucket (importsMap s) k @ concat (map (pushed k) sts)"
    and "fst ` set (importsMap s') = fst ` set (importsMap s) \<union> {k. \<exists>st \<in> set sts. pushed k st \<noteq> []}"
  using assms
proof (induction sts arbitrary: s)
  case Nil
  { case 1 then show ?case by simp }
  { case 2 then show ?case by simp }
  { case 3 then show ?case by simp }
next
  case (Cons st sts)
  { case 1
    then obtain s1 where a: "visitStatement st s = Inr s1" and b: "forEachStatement sts s1 = Inr s'"
      by (cases "visitStatement st s") simp_all
    show ?case using step(1) [OF a] Cons.IH(1) [OF b] by simp }
  { case 2
    then obtain s1 where a: "visitStatement st s = Inr s1" and b: "forEachStatement sts s1 = Inr s'"
      by (cases "visitStatement st s") simp_all
    show ?case using step(2) [OF a, of k] Cons.IH(2) [OF b] by simp }
  { case 3
    then obtain s1 where a: "visitStatement st s = Inr s1" and b: "forEachStatement sts s1 = Inr s'"
      by (cases "visitStatement st s") simp_all
    show ?case using step(3) [OF a] Cons.IH(3) [OF b] by auto }
qed

lemma path_accepted: "\<not> sublist ''node_modules'' ''src/app.ts'' \<and> suffix ''.ts'' ''src/app.ts''"
  by code_simp

lemma visit_path: "visit ''src/app.ts'' sf = visitSourceFile sf"
  by (simp add: visit_def path_accepted)

lemma forEachStatement_throws:
  assumes "st \<in> set sts" and "\<And>s. \<exists>e. visitStatement st s = Inl e"
  shows "\<exists>e. forEachStatement sts s = Inl e"
  using assms(1)
proof (induction sts arbitrary: s)
  case Nil
  then show ?case by simp
next
  case (Cons x xs)
  show ?case
  proof (cases "visitStatement x s")
    case (Inl e)
    then show ?thesis by simp
  next
    case (Inr s1)
    with assms(2) [of s] have "x \<noteq> st" by auto
    with Cons.prems have "st \<in> set xs" by simp
    from Cons.IH [OF this, of s1] Inr show ?thesis by simp
  qed
qed

lemma visitSourceFile_throws:
  "forEachStatement (statements sf) emptyMigration = Inl e \<Longrightarrow> visitSourceFile sf = Inl e"
  by (simp add: visitSourceFile_def)

lemma visitSourceFile_done:
  "forEachStatement (statements sf) emptyMigration = Inr s \<Longrightarrow>
   visitSourceFile sf =
     Inr (if importsMap s = [] then None
          else Some (recorder s @ insertImports (fileStart sf) (importsMap s)))"
  by (simp add: visitSourceFile_def)





lemma bucket_empty [simp]: "bucket [] k = []"
  by (simp add: bucket_def)









lemma length_getIdentifiers:
  "length (getIdentifiers nb) =
     length (case nb of NamedImports els \<Rightarrow> map namedPair els | NamespaceImport n \<Rightarrow> [])"
  by (cases nb) simp_all


lemma pushed_alt:
  "pushed k (ImportDeclaration (Some (ImportClause dn nbo)) (StringLiteral t) a w) =
     (if map_of redirects (modulePathOf t) = Some k then
        (case nbo of Some nb \<Rightarrow> getIdentifiers nb | None \<Rightarrow> [])
      else if modulePathOf t = ''graphql-tag'' \<and> k = ''apollo-angular'' then
        (case dn of
           Some L \<Rightarrow> [Imported ''gql'' (if escapedText L \<noteq> ''gql'' then Some (escapedText L) else None)]
         | None \<Rightarrow> [])
      else [])"
  by (simp add: pushed_def)

lemma namedFor_alt:
  "namedFor k (ImportDeclaration (Some (ImportClause dn nbo)) (StringLiteral t) a w) =
     (if map_of redirects (modulePathOf t) = Some k then
        (case nbo of
           Some nb \<Rightarrow> (case nb of NamedImports els \<Rightarrow> map namedPair els | NamespaceImport n \<Rightarrow> [])
         | None \<Rightarrow> [])
      else if modulePathOf t = ''graphql-tag'' \<and> k = ''apollo-angular'' then
        (case dn of
           Some L \<Rightarrow> [Imported ''gql'' (if L \<noteq> ''gql'' then Some L else None)]
         | None \<Rightarrow> [])
      else [])"
  by (simp add: namedFor_def split: option.splits named_import_bindings.splits)

lemma pushed_other:
  "importClause st = None \<or> importedModule st = None \<Longrightarrow> pushed k st = [] \<and> namedFor k st = []"
  by (cases st) (auto simp: pushed_def namedFor_def importedModule_def
                      split: expression.splits option.splits)

lemma statement_shape:
  obtains (import) dn nbo t a w where
      "st = ImportDeclaration (Some (ImportClause dn nbo)) (StringLiteral t) a w"
  | (other) "importClause st = None \<or> importedModule st = None"
proof (cases st)
  case (ImportDeclaration c m a w)
  show ?thesis
  proof (cases c)
    case None
    with ImportDeclaration other show ?thesis by simp
  next
    case (Some clause)
    obtain dn nbo where cl: "clause = ImportClause dn nbo" by (cases clause)
    show ?thesis
    proof (cases m)
      case (StringLiteral t)
      with ImportDeclaration Some cl import show ?thesis by simp
    next
      case (OtherExpression e)
      with ImportDeclaration other show ?thesis by (simp add: importedModule_def)
    qed
  qed
next
  case (OtherStatement a w)
  with other show ?thesis by (simp add: importedModule_def)
qed

lemma length_pushed: "length (pushed k st) = length (namedFor k st)"
proof (cases st rule: statement_shape)
  case (import dn nbo t a w)
  show ?thesis
    unfolding import pushed_alt namedFor_alt
    by (cases nbo; cases dn) (simp_all add: length_getIdentifiers)
next
  case other
  from pushed_other [OF this, of k] show ?thesis by simp
qed

lemma pushed_empty_iff: "pushed k st = [] \<longleftrightarrow> namedFor k st = []"
  using length_pushed [of k st] by (metis length_0_conv)


lemma importedModule_startingAt [simp]: "importedModule (startingAt p st) = importedModule st"
  by (cases st) (simp_all add: importedModule_def)

lemma importedModule_keptStatement [simp]:
  "importedModule (keptStatement i r st) = importedModule st"
  by (simp add: keptStatement_def)














lemma fileAfter_apolloFile: "fileAfter ''src/app.ts'' apolloFile = Inr apolloFileAgain"
  by code_simp

section \<open>The claims\<close>

subsection \<open>Aliases of named imports\<close>

text \<open>
  C1 says that a specifier whose local binding differs from its exported name is emitted
  as \<^verbatim>\<open>exported as local\<close>. \<^verbatim>\<open>getIdentifiers\<close> passes the exported name as the alias, so
  for \<^verbatim>\<open>import {X as A} from 'apollo-client';\<close> the visitor emits \<^verbatim>\<open>X as X\<close> and the local
  binding \<^verbatim>\<open>A\<close> is lost.
\<close>

theorem aliased_import_emitted_without_local_name:
  "visit ''src/app.ts'' aliasedFile =
     Inr (Some [Remove 0 37,
                InsertLeft 0 (''import {X as X} from '@apollo/client/core';'' @ newline)])"
  by code_simp

subsection \<open>Files without a matching import\<close>

text \<open>
  C5: when no statement of the file is an import whose module path is a source of the
  mapping (one of the fifteen sources, or \<^verbatim>\<open>graphql-tag\<close>), the visitor commits nothing,
  whatever the path, and the text of the file stays what it was.
\<close>

theorem no_match_no_write:
  assumes "\<forall>st \<in> set (statements sf). \<not> matched st"
  shows "visit path sf = Inr None \<and> migrateFile path sf = Inr (content sf)"
proof -
  have "visitSourceFile sf = Inr None"
    using forEachStatement_unmatched [OF assms, of emptyMigration]
    by (simp add: visitSourceFile_def emptyMigration_def)
  then have "visit path sf = Inr None" by (simp add: visit_def)
  then show ?thesis by (simp add: migrateFile_def)
qed

theorem no_match_no_write_witness:
  "visit ''src/app.ts'' unrelatedFile = Inr None \<and>
   migrateFile ''src/app.ts'' unrelatedFile = Inr (content unrelatedFile)"
proof -
  have h: "\<forall>st \<in> set (statements unrelatedFile). \<not> matched st" by code_simp
  show ?thesis using no_match_no_write [OF h] by simp
qed

subsection \<open>Imports without an import clause\<close>

text \<open>
  C6 says that \<^verbatim>\<open>import 'apollo-client';\<close> is processed without error. \<^verbatim>\<open>redirectImport\<close>
  reads \<^verbatim>\<open>statement.importClause.namedBindings\<close>, and the import clause of such a statement
  is \<^verbatim>\<open>undefined\<close>: the visitor throws before it removes anything.
\<close>

theorem side_effect_import_throws:
  "visit ''src/app.ts'' sideEffectFile = Inl (TypeError ''namedBindings'')"
  by code_simp

subsection \<open>Module specifiers that are not string literals\<close>

text \<open>
  C8: an import declaration whose module specifier is not a string literal is skipped by
  the visitor: visiting it changes neither \<^verbatim>\<open>importsMap\<close> nor the recorder and throws
  nothing, and the visit of a file goes as if the statement were not in it, so no edit
  touches the statement.
\<close>

theorem non_literal_specifier_ignored:
  "visitStatement (ImportDeclaration c (OtherExpression e) a w) s = Inr s \<and>
   forEachStatement (pre @ ImportDeclaration c (OtherExpression e) a w # post) s =
     forEachStatement (pre @ post) s"
proof -
  have one: "visitStatement (ImportDeclaration c (OtherExpression e) a w) s' = Inr s'" for s'
    by (simp add: visitStatement_def)
  have "forEachStatement (pre @ ImportDeclaration c (OtherExpression e) a w # post) s =
        forEachStatement (pre @ post) s"
    by (cases "forEachStatement pre s") (simp_all add: forEachStatement_append one)
  with one show ?thesis by simp
qed

theorem non_literal_specifier_ignored_witness:
  "visitStatement computedImport emptyMigration = Inr emptyMigration \<and>
   forEachStatement (statements unrelatedFile) emptyMigration =
     forEachStatement (tl (statements unrelatedFile)) emptyMigration"
  using non_literal_specifier_ignored
    [of "Some (ImportClause (Some ''x'') None)" "''moduleName''" 0 25 emptyMigration "[]"
        "tl (statements unrelatedFile)"]
  by (simp add: computedImport_def unrelatedFile_def)

subsection \<open>The default import of \<^verbatim>\<open>graphql-tag\<close>\<close>

text \<open>
  C7 says that a default import from \<^verbatim>\<open>graphql-tag\<close> with local binding \<open>L\<close> becomes
  \<^verbatim>\<open>gql as L\<close>. The visitor takes the alias from \<^verbatim>\<open>escapedText\<close>: for
  \<^verbatim>\<open>import __g from 'graphql-tag';\<close> it emits \<^verbatim>\<open>gql as ___g\<close>, a binding that the file does
  not use. For \<^verbatim>\<open>import myGql from 'graphql-tag';\<close>, whose name has no such start, it emits
  \<^verbatim>\<open>gql as myGql\<close>.
\<close>

theorem graphql_tag_alias_gets_underscore:
  "visit ''src/app.ts'' underscoreGqlFile =
     Inr (Some [Remove 0 30,
                InsertLeft 0 (''import {gql as ___g} from 'apollo-angular';'' @ newline)]) \<and>
   visit ''src/app.ts'' myGqlFile =
     Inr (Some [Remove 0 32,
                InsertLeft 0 (''import {gql as myGql} from 'apollo-angular';'' @ newline)])"
  by code_simp

text \<open>
  C10: an import from \<^verbatim>\<open>graphql-tag\<close> that has named bindings and no default binding makes
  the visitor throw, at the read of \<^verbatim>\<open>statement.importClause.name.escapedText\<close>, and so
  does the visit of every file that holds such a statement; with a default binding the
  statement is visited without a throw.
\<close>

theorem graphql_tag_needs_default_binding:
  assumes "modulePathOf t = ''graphql-tag''"
  shows "visitStatement (ImportDeclaration (Some (ImportClause None (Some nb))) (StringLiteral t) a w) s
           = Inl (TypeError ''escapedText'') \<and>
         (\<forall>sf. ImportDeclaration (Some (ImportClause None (Some nb))) (StringLiteral t) a w
                 \<in> set (statements sf) \<longrightarrow>
               (\<exists>e. visitSourceFile sf = Inl e)) \<and>
         (\<exists>s'. visitStatement (ImportDeclaration (Some (ImportClause (Some L) (Some nb)))
                  (StringLiteral t) a w) s = Inr s')"
proof -
  let ?st = "ImportDeclaration (Some (ImportClause None (Some nb))) (StringLiteral t) a w"
  have im: "importedModule ?st = Some ''graphql-tag''"
    by (simp add: importedModule_def assms)
  have throws: "visitStatement ?st s' = Inl (TypeError ''escapedText'')" for s'
    by (simp add: visitStatement_graphql [OF im] graphqlTag_def)
  have whole: "\<exists>e. visitSourceFile sf = Inl e" if "?st \<in> set (statements sf)" for sf
  proof -
    from forEachStatement_throws [OF that, of emptyMigration] throws
    obtain e where "forEachStatement (statements sf) emptyMigration = Inl e" by auto
    then show ?thesis by (auto dest: visitSourceFile_throws)
  qed
  let ?st' = "ImportDeclaration (Some (ImportClause (Some L) (Some nb))) (StringLiteral t) a w"
  have "importedModule ?st' = Some ''graphql-tag''"
    by (simp add: importedModule_def assms)
  then have "\<exists>s'. visitStatement ?st' s = Inr s'"
    by (simp add: visitStatement_graphql graphqlTag_def Let_def)
  with throws whole show ?thesis by blast
qed

theorem graphql_tag_needs_default_binding_witness:
  "modulePathOf (quoted ''graphql-tag'') = ''graphql-tag'' \<and>
   visitStatement (hd (statements namedGqlFile)) emptyMigration = Inl (TypeError ''escapedText'') \<and>
   (\<exists>e. visitSourceFile namedGqlFile = Inl e) \<and>
   (\<exists>s'. visitStatement
      (ImportDeclaration
         (Some (ImportClause (Some ''gql'') (Some (NamedImports [ImportSpecifier None ''gql'']))))
         (StringLiteral (quoted ''graphql-tag'')) 0 32) emptyMigration = Inr s')"
proof -
  have h: "modulePathOf (quoted ''graphql-tag'') = ''graphql-tag''"
    by (rule modulePathOf_quoted)
  have m: "hd (statements namedGqlFile) \<in> set (statements namedGqlFile)"
    by (simp add: namedGqlFile_def)
  show ?thesis
    using graphql_tag_needs_default_binding
      [OF h, of "NamedImports [ImportSpecifier None ''gql'']" 0 32 emptyMigration "''gql''"] h m
    by (simp add: namedGqlFile_def)
qed

subsection \<open>Merging into one bucket\<close>




subsection \<open>Removal of the matched statements\<close>

text \<open>
  Against C4: \<^verbatim>\<open>import {} from 'apollo-link';\<close> matches a source and names no symbol. Its
  removal is recorded, but \<^verbatim>\<open>importsMap\<close> has no key, the recorder is not committed and
  the statement stays in the file.
\<close>

theorem import_without_symbols_kept:
  "matched (hd (statements emptyNamedFile)) \<and>
   visit ''src/app.ts'' emptyNamedFile = Inr None \<and>
   migrateFile ''src/app.ts'' emptyNamedFile = Inr (content emptyNamedFile)"
  by code_simp

text \<open>
  C4 as amended: when the visit of a file does not throw, the recorder holds exactly one
  removal for each matched statement, of that statement's span and in statement order,
  however many symbols the statement names; \<^verbatim>\<open>importsMap\<close> is empty exactly when no
  statement names a symbol for any destination, and the removals are committed, together
  with the emitted imports, exactly when it is not empty.
\<close>

theorem matched_statements_removed_once:
  assumes "forEachStatement (statements sf) emptyMigration = Inr s"
  shows "recorder s = map removeStatement (filter matched (statements sf)) \<and>
         ((importsMap s = []) = (\<forall>st \<in> set (statements sf). \<forall>k. namedFor k st = [])) \<and>
         visitSourceFile sf =
           Inr (if importsMap s = [] then None
                else Some (map removeStatement (filter matched (statements sf)) @
                           insertImports (fileStart sf) (importsMap s)))"
proof -
  have rec: "recorder s = map removeStatement (filter matched (statements sf))"
    using forEach_result(1) [OF assms] by (simp add: emptyMigration_def)
  have keys: "fst ` set (importsMap s) = {k. \<exists>st \<in> set (statements sf). namedFor k st \<noteq> []}"
    using forEach_result(3) [OF assms] by (simp add: emptyMigration_def pushed_empty_iff)
  have "(importsMap s = []) = (fst ` set (importsMap s) = {})" by simp
  also have "\<dots> = (\<forall>st \<in> set (statements sf). \<forall>k. namedFor k st = [])"
    unfolding keys by auto
  finally have empty: "(importsMap s = []) = (\<forall>st \<in> set (statements sf). \<forall>k. namedFor k st = [])" .
  from rec empty visitSourceFile_done [OF assms] show ?thesis by simp
qed

theorem matched_statements_removed_once_witness:
  "map removeStatement (filter matched (statements cacheLinkFile)) = [Remove 0 54, Remove 55 41] \<and>
   visitSourceFile cacheLinkFile =
     Inr (Some [Remove 0 54, Remove 55 41,
                InsertLeft 0 (''import {InMemoryCache, ApolloLink} from '@apollo/client/core';'' @ newline)])"
proof -
  have h: "forEachStatement (statements cacheLinkFile) emptyMigration =
     Inr \<lparr>importsMap = [(''@apollo/client/core'',
                          [Imported ''InMemoryCache'' None, Imported ''ApolloLink'' None])],
          recorder = [Remove 0 54, Remove 55 41]\<rparr>"
    by code_simp
  have t: "insertImports (fileStart cacheLinkFile) [(''@apollo/client/core'',
                          [Imported ''InMemoryCache'' None, Imported ''ApolloLink'' None])]
            = [InsertLeft 0 (''import {InMemoryCache, ApolloLink} from '@apollo/client/core';'' @ newline)]"
    by code_simp
  from matched_statements_removed_once [OF h] t show ?thesis by simp
qed

subsection \<open>Default imports from the redirected modules\<close>

text \<open>
  Against C9: in a file that holds only \<^verbatim>\<open>import ApolloClient from 'apollo-client';\<close> the
  removal is recorded, \<^verbatim>\<open>importsMap\<close> has no key, the recorder is not committed, and the
  statement with its binding stays in the file.
\<close>

theorem default_only_import_kept:
  "matched defaultOnlyImport \<and>
   visit ''src/app.ts'' defaultOnlyFile = Inr None \<and>
   migrateFile ''src/app.ts'' defaultOnlyFile = Inr (content defaultOnlyFile)"
  by code_simp

text \<open>
  C9 as amended: an import with only a default binding from a redirected module adds the
  removal of its span to the recorder and leaves \<^verbatim>\<open>importsMap\<close> as it is, so the binding is
  named by no emitted import. A file that holds only this statement is not written. In
  every file that holds the statement and is visited without a throw, the removal is in
  the recorder, which is committed exactly when \<^verbatim>\<open>importsMap\<close> has a key.
\<close>

theorem default_only_import_contributes_nothing:
  assumes src: "map_of redirects (modulePathOf t) = Some target"
    and st: "st = ImportDeclaration (Some (ImportClause (Some d) None)) (StringLiteral t) a w"
  shows "visitStatement st s = Inr (s\<lparr>recorder := recorder s @ [Remove a w]\<rparr>) \<and>
         visitSourceFile \<lparr>content = c, fileStart = b, statements = [st]\<rparr> = Inr None \<and>
         (\<forall>sf s'. st \<in> set (statements sf) \<and>
                  forEachStatement (statements sf) emptyMigration = Inr s' \<longrightarrow>
            visitSourceFile sf =
              Inr (if importsMap s' = [] then None
                   else Some (recorder s' @ insertImports (fileStart sf) (importsMap s'))) \<and>
            Remove a w \<in> set (recorder s'))"
proof -
  have md: "importedModule st = Some (modulePathOf t)"
    by (simp add: importedModule_def st)
  have one: "visitStatement st s1 = Inr (s1\<lparr>recorder := recorder s1 @ [Remove a w]\<rparr>)" for s1
    unfolding visitStatement_rule [OF md src]
    by (simp add: redirectImport_def st removeStatement_def)
  have two: "visitSourceFile \<lparr>content = c, fileStart = b, statements = [st]\<rparr> = Inr None"
    by (simp add: visitSourceFile_def one emptyMigration_def)
  have three: "visitSourceFile sf =
              Inr (if importsMap s' = [] then None
                   else Some (recorder s' @ insertImports (fileStart sf) (importsMap s'))) \<and>
            Remove a w \<in> set (recorder s')"
    if mem: "st \<in> set (statements sf)"
      and run: "forEachStatement (statements sf) emptyMigration = Inr s'" for sf s'
  proof -
    have rec: "recorder s' = map removeStatement (filter matched (statements sf))"
      using forEach_result(1) [OF run] by (simp add: emptyMigration_def)
    have "removeStatement st \<in> set (recorder s')"
      using mem matched_rule [OF md src] by (simp add: rec)
    then have "Remove a w \<in> set (recorder s')" by (simp add: removeStatement_def st)
    with visitSourceFile_done [OF run] show ?thesis by simp
  qed
  from one two three show ?thesis by blast
qed

theorem default_only_import_contributes_nothing_witness:
  "map_of redirects (modulePathOf (quoted ''apollo-client'')) = Some ''@apollo/client/core'' \<and>
   visitStatement defaultOnlyImport emptyMigration = Inr \<lparr>importsMap = [], recorder = [Remove 0 41]\<rparr> \<and>
   visitSourceFile defaultOnlyFile = Inr None \<and>
   visitSourceFile defaultAndNamedFile =
     Inr (Some [Remove 0 41, Remove 42 39,
                InsertLeft 0 (''import {ApolloLink} from '@apollo/client/core';'' @ newline)])"
proof -
  have h: "map_of redirects (modulePathOf (quoted ''apollo-client'')) = Some ''@apollo/client/core''"
    by code_simp
  have d: "defaultOnlyImport =
             ImportDeclaration (Some (ImportClause (Some ''ApolloClient'') None))
               (StringLiteral (quoted ''apollo-client'')) 0 41"
    by (simp add: defaultOnlyImport_def)
  have run: "forEachStatement (statements defaultAndNamedFile) emptyMigration =
     Inr \<lparr>importsMap = [(''@apollo/client/core'', [Imported ''ApolloLink'' None])],
          recorder = [Remove 0 41, Remove 42 39]\<rparr>"
    by code_simp
  have mem: "defaultOnlyImport \<in> set (statements defaultAndNamedFile)"
    by (simp add: defaultAndNamedFile_def)
  have t: "insertImports (fileStart defaultAndNamedFile)
             [(''@apollo/client/core'', [Imported ''ApolloLink'' None])]
           = [InsertLeft 0 (''import {ApolloLink} from '@apollo/client/core';'' @ newline)]"
    by code_simp
  note inst = default_only_import_contributes_nothing
    [OF h d, of emptyMigration "content defaultOnlyFile" 0]
  from inst have one: "visitStatement defaultOnlyImport emptyMigration =
      Inr \<lparr>importsMap = [], recorder = [Remove 0 41]\<rparr>"
    by (simp add: emptyMigration_def)
  from inst have two: "visitSourceFile defaultOnlyFile = Inr None"
    by (simp add: defaultOnlyFile_def)
  from inst mem run have "visitSourceFile defaultAndNamedFile =
      Inr (Some ([Remove 0 41, Remove 42 39] @ insertImports (fileStart defaultAndNamedFile)
             [(''@apollo/client/core'', [Imported ''ApolloLink'' None])]))"
    by auto
  with h one two t show ?thesis by simp
qed

subsection \<open>Running the visitor again\<close>




end
